theory Spec2Isabelle
  imports Complex_Main "HOL-Library.Sublist" "HOL-Library.Product_Lexorder"
begin

section \<open>AgriScan Plant Doctor: the decision core of app.py\<close>

text \<open>
  The theory embeds the parts of \<^verbatim>\<open>src/app.py\<close> that compute data: the label
  catalog \<^verbatim>\<open>CLASS_NAMES\<close>, the mock detector \<^verbatim>\<open>detect_disease\<close>, the treatment
  lookup \<^verbatim>\<open>get_treatments\<close>, the three hard-coded sample results and the chart data
  built in \<^verbatim>\<open>main\<close>. Page layout, widgets and styling are not modelled.

  Conventions. A Python \<^verbatim>\<open>str\<close> is a \<open>string\<close> (all literals of the source are
  ASCII). A numpy \<^verbatim>\<open>float64\<close> is a value of the type \<open>float64\<close> below: a real
  number, an infinity or NaN. Arithmetic on finite values is exact, so the rounding of
  IEEE doubles is not part of the model; division keeps what numpy does at a zero
  divisor (NaN or an infinity, with a warning and no exception).
\<close>

subsection \<open>Label catalog (lines 121-132)\<close>

definition CLASS_NAMES :: "string list" where
  "CLASS_NAMES =
    [''Tomato Bacterial Spot'',
     ''Tomato Early Blight'',
     ''Tomato Late Blight'',
     ''Tomato Leaf Mold'',
     ''Tomato Septoria Leaf Spot'',
     ''Tomato Spider Mites'',
     ''Tomato Target Spot'',
     ''Tomato Yellow Leaf Curl Virus'',
     ''Tomato Mosaic Virus'',
     ''Healthy Tomato'']"

subsection \<open>numpy values and operations\<close>

datatype float64 = Finite real | PosInf | NegInf | NaN

text \<open>
  \<^verbatim>\<open>x / s\<close> on float64 operands that are both finite: a zero divisor gives NaN
  for \<open>0 / 0\<close> and a signed infinity otherwise.
\<close>

definition np_divide :: "real \<Rightarrow> real \<Rightarrow> float64" where
  "np_divide x s =
     (if s \<noteq> 0 then Finite (x / s)
      else if x = 0 then NaN
      else if 0 < x then PosInf
      else NegInf)"

text \<open>
  The order \<^verbatim>\<open>np.argsort\<close> sorts by: \<open>-inf\<close>, the finite values, \<open>+inf\<close>, and NaN
  last. \<open>sort_rank\<close> maps a value to its place in that order.
\<close>

fun sort_rank :: "float64 \<Rightarrow> nat \<times> real" where
  "sort_rank NegInf = (0, 0)"
| "sort_rank (Finite r) = (1, r)"
| "sort_rank PosInf = (2, 0)"
| "sort_rank NaN = (3, 0)"

text \<open>
  \<^verbatim>\<open>np.argsort(xs)\<close>: the indices of \<open>xs\<close> in ascending order of their values.
  numpy's default sort kind fixes no order among equal values, and its sorting
  routines differ in the order they leave. The model takes the stable order, which is
  one of the admissible ones. No theorem about all random sources below says in which
  order equal values come out.
\<close>

definition np_argsort :: "float64 list \<Rightarrow> nat list" where
  "np_argsort xs = sort_key (\<lambda>i. sort_rank (xs ! i)) [0..<length xs]"

text \<open>IEEE comparisons of float64 values: every comparison with NaN is false.\<close>

definition f64_le :: "float64 \<Rightarrow> float64 \<Rightarrow> bool" where
  "f64_le a b = (a \<noteq> NaN \<and> b \<noteq> NaN \<and> sort_rank a \<le> sort_rank b)"

definition f64_less :: "float64 \<Rightarrow> float64 \<Rightarrow> bool" where
  "f64_less a b = (a \<noteq> NaN \<and> b \<noteq> NaN \<and> sort_rank a < sort_rank b)"

definition in_unit_interval :: "float64 \<Rightarrow> bool" where
  "in_unit_interval c = (case c of Finite r \<Rightarrow> 0 \<le> r \<and> r \<le> 1 | _ \<Rightarrow> False)"

subsection \<open>The random source\<close>

text \<open>
  The state of numpy's global generator, seen through the two calls
  \<^verbatim>\<open>detect_disease\<close> makes: \<open>shuffled g xs\<close> is the arrangement
  \<^verbatim>\<open>np.random.shuffle\<close> leaves in a list \<open>xs\<close>, and \<open>uniform g i\<close> is the \<open>i\<close>-th
  sample the following \<^verbatim>\<open>np.random.rand(n)\<close> returns. numpy draws each sample from
  the half-open interval \<open>[0, 1)\<close>.
\<close>

record random_source =
  shuffled :: "string list \<Rightarrow> string list"
  uniform :: "nat \<Rightarrow> real"

definition np_random_rand :: "random_source \<Rightarrow> nat \<Rightarrow> real list" where
  "np_random_rand g n = map (uniform g) [0..<n]"

definition unit_samples :: "random_source \<Rightarrow> nat \<Rightarrow> bool" where
  "unit_samples g n = (\<forall>i<n. 0 \<le> uniform g i \<and> uniform g i < 1)"

subsection \<open>Python list indexing\<close>

datatype py_error = IndexError

fun py_index :: "'a list \<Rightarrow> nat \<Rightarrow> py_error + 'a" where
  "py_index [] i = Inl IndexError"
| "py_index (x # xs) 0 = Inr x"
| "py_index (x # xs) (Suc i) = py_index xs i"

subsection \<open>The mock detector (lines 142-162)\<close>

text \<open>An image handle, \<^verbatim>\<open>None\<close> or a PIL image; the content is a list of bytes.\<close>

datatype image = Image "nat list"

record prediction =
  disease :: string
  confidence :: float64

text \<open>
  Lines 149-150: one sample per catalog entry, each divided by the sum of all.
\<close>

definition normalized_confidences :: "random_source \<Rightarrow> nat \<Rightarrow> float64 list" where
  "normalized_confidences g n =
     (let confidences = np_random_rand g n
      in map (\<lambda>x. np_divide x (sum_list confidences)) confidences)"

text \<open>
  Lines 154-160: the loop over \<open>top_indices\<close>, appending one dictionary per index.
  Both subscripts raise IndexError out of range.
\<close>

fun append_results ::
  "string list \<Rightarrow> float64 list \<Rightarrow> nat list \<Rightarrow> prediction list \<Rightarrow> py_error + prediction list"
where
  "append_results names confidences [] results = Inr results"
| "append_results names confidences (idx # rest) results =
     (case py_index names idx of
        Inl e \<Rightarrow> Inl e
      | Inr d \<Rightarrow>
          (case py_index confidences idx of
             Inl e \<Rightarrow> Inl e
           | Inr c \<Rightarrow>
               append_results names confidences rest
                 (results @ [\<lparr>disease = d, confidence = c\<rparr>])))"

text \<open>
  \<open>detect_disease_on names\<close> is the body of \<^verbatim>\<open>detect_disease\<close> with the global
  \<^verbatim>\<open>CLASS_NAMES\<close> as the parameter \<open>names\<close>. The shuffled copy \<open>diseases\<close> is
  computed and never read again, as in the source.
\<close>

definition detect_disease_on ::
  "string list \<Rightarrow> image option \<Rightarrow> random_source \<Rightarrow> py_error + prediction list"
where
  "detect_disease_on names img g =
     (let diseases = shuffled g names;
          confidences = normalized_confidences g (length names);
          top_indices = take 3 (rev (np_argsort confidences))
      in append_results names confidences top_indices [])"

definition detect_disease :: "image option \<Rightarrow> random_source \<Rightarrow> py_error + prediction list" where
  "detect_disease img g = detect_disease_on CLASS_NAMES img g"

subsection \<open>Treatment recommendations (lines 165-205)\<close>

definition healthy_treatments :: "string list" where
  "healthy_treatments =
    [''Continue regular monitoring'',
     ''Apply balanced NPK fertilizer'',
     ''Maintain proper watering schedule'',
     ''Ensure adequate sunlight exposure'']"

definition early_blight_treatments :: "string list" where
  "early_blight_treatments =
    [''Remove infected leaves immediately'',
     ''Apply copper-based fungicide weekly'',
     ''Improve air circulation around plants'',
     ''Rotate crops next season'']"

definition late_blight_treatments :: "string list" where
  "late_blight_treatments =
    [''Apply chlorothalonil (0.05%) immediately'',
     ''Destroy severely infected plants'',
     ''Avoid overhead watering'',
     ''Plant resistant varieties next season'']"

definition septoria_treatments :: "string list" where
  "septoria_treatments =
    [''Apply mancozeb fungicide (2g/L water)'',
     ''Remove and destroy infected leaves'',
     ''Stake plants for better airflow'',
     ''Mulch to prevent soil splash'']"

definition default_treatments :: "string list" where
  "default_treatments =
    [''Apply neem oil spray every 7 days'',
     ''Remove affected plant parts'',
     ''Introduce beneficial insects'',
     ''Apply sulfur-based fungicide'']"

text \<open>Python's \<^verbatim>\<open>pat in s\<close> on strings is \<open>sublist pat s\<close>: a contiguous occurrence.\<close>

definition get_treatments :: "string \<Rightarrow> string list" where
  "get_treatments disease_name =
     (if sublist ''Healthy'' disease_name then healthy_treatments
      else if sublist ''Early Blight'' disease_name then early_blight_treatments
      else if sublist ''Late Blight'' disease_name then late_blight_treatments
      else if sublist ''Septoria'' disease_name then septoria_treatments
      else default_treatments)"

text \<open>
  The lookup as the specification words it: an ordered list of (pattern, advice) rules,
  the first rule whose pattern occurs in the name wins, and a default otherwise.
\<close>

definition spec_treatment_rules :: "(string \<times> string list) list" where
  "spec_treatment_rules =
    [(''Healthy'', healthy_treatments),
     (''Early Blight'', early_blight_treatments),
     (''Late Blight'', late_blight_treatments),
     (''Septoria'', septoria_treatments)]"

fun spec_first_match :: "(string \<times> 'a) list \<Rightarrow> 'a \<Rightarrow> string \<Rightarrow> 'a" where
  "spec_first_match [] dflt s = dflt"
| "spec_first_match ((pat, adv) # rules) dflt s =
     (if sublist pat s then adv else spec_first_match rules dflt s)"

subsection \<open>Sample results (lines 298-334)\<close>

datatype sample_button = Test_Early_Blight | Test_Late_Blight | Test_Healthy_Leaf

fun sample_results :: "sample_button \<Rightarrow> prediction list" where
  "sample_results Test_Early_Blight =
    [\<lparr>disease = ''Tomato Early Blight'', confidence = Finite 0.92\<rparr>,
     \<lparr>disease = ''Tomato Septoria Leaf Spot'', confidence = Finite 0.06\<rparr>,
     \<lparr>disease = ''Tomato Late Blight'', confidence = Finite 0.02\<rparr>]"
| "sample_results Test_Late_Blight =
    [\<lparr>disease = ''Tomato Late Blight'', confidence = Finite 0.88\<rparr>,
     \<lparr>disease = ''Tomato Early Blight'', confidence = Finite 0.08\<rparr>,
     \<lparr>disease = ''Tomato Leaf Mold'', confidence = Finite 0.04\<rparr>]"
| "sample_results Test_Healthy_Leaf =
    [\<lparr>disease = ''Healthy Tomato'', confidence = Finite 0.95\<rparr>,
     \<lparr>disease = ''Tomato Bacterial Spot'', confidence = Finite 0.03\<rparr>,
     \<lparr>disease = ''Tomato Yellow Leaf Curl Virus'', confidence = Finite 0.02\<rparr>]"

subsection \<open>Chart data (lines 399-413)\<close>

text \<open>
  \<^verbatim>\<open>s.replace(old, new)\<close>: every occurrence of \<open>old\<close>, found left to right without
  overlap, is replaced; an empty \<open>old\<close> matches before every character and at the end.
\<close>

function py_replace :: "string \<Rightarrow> string \<Rightarrow> string \<Rightarrow> string" where
  "py_replace old new [] = (if old = [] then new else [])"
| "py_replace old new (c # cs) =
     (if old = [] then new @ c # py_replace old new cs
      else if prefix old (c # cs) then new @ py_replace old new (drop (length old) (c # cs))
      else c # py_replace old new cs)"
  by pat_completeness auto
termination
  by (relation "measure (\<lambda>(old, new, s). length s)") auto

text \<open>Line 405: the label shown beside a bar.\<close>

definition short_name :: "string \<Rightarrow> string" where
  "short_name name =
     take 20 (py_replace ''Tomato '' '''' name) @ (if length name > 20 then ''...'' else '''')"

text \<open>
  What \<^verbatim>\<open>main\<close> hands to matplotlib: the labels and widths of \<^verbatim>\<open>ax.barh\<close>, the
  limits of \<^verbatim>\<open>ax.set_xlim\<close> and whether \<^verbatim>\<open>ax.invert_yaxis\<close> was called.
\<close>

record chart_spec =
  bar_labels :: "string list"
  bar_widths :: "float64 list"
  xlim :: "real \<times> real"
  yaxis_inverted :: bool

definition top_predictions_chart :: "prediction list \<Rightarrow> chart_spec" where
  "top_predictions_chart results =
     (let diseases = map disease results;
          confidences = map confidence results;
          short_names = map short_name diseases
      in \<lparr>bar_labels = short_names, bar_widths = confidences,
          xlim = (0, 1), yaxis_inverted = True\<rparr>)"

text \<open>
  matplotlib places the \<open>i\<close>-th bar of \<^verbatim>\<open>barh\<close> at height \<open>i\<close>, so the first bar is
  the lowest unless the axis is inverted.
\<close>

definition bars_top_to_bottom :: "chart_spec \<Rightarrow> (string \<times> float64) list" where
  "bars_top_to_bottom c =
     (let bars = zip (bar_labels c) (bar_widths c)
      in if yaxis_inverted c then bars else rev bars)"

subsection \<open>Properties of a list of predictions\<close>

definition descending :: "prediction list \<Rightarrow> bool" where
  "descending rs = sorted_wrt (\<lambda>p q. f64_le (confidence q) (confidence p)) rs"

definition strictly_descending :: "prediction list \<Rightarrow> bool" where
  "strictly_descending rs = sorted_wrt (\<lambda>p q. f64_less (confidence q) (confidence p)) rs"

text \<open>
  The order the specification asks for: descending by confidence, and of two entries
  with the same confidence the one earlier in the catalog first.
\<close>

definition catalog_position :: "string list \<Rightarrow> string \<Rightarrow> nat" where
  "catalog_position names d = length (takeWhile (\<lambda>x. x \<noteq> d) names)"

definition ties_in_catalog_order :: "string list \<Rightarrow> prediction list \<Rightarrow> bool" where
  "ties_in_catalog_order names rs =
     sorted_wrt (\<lambda>p q. f64_less (confidence q) (confidence p) \<or>
        (confidence p = confidence q \<and>
         catalog_position names (disease p) < catalog_position names (disease q))) rs"

text \<open>The real numbers of a list of float64 values, when all of them are finite.\<close>

fun finite_values :: "float64 list \<Rightarrow> real list option" where
  "finite_values [] = Some []"
| "finite_values (Finite r # cs) = map_option ((#) r) (finite_values cs)"
| "finite_values (c # cs) = None"

definition sums_to_one :: "float64 list \<Rightarrow> bool" where
  "sums_to_one cs = (map_option sum_list (finite_values cs) = Some 1)"

definition non_negative :: "float64 \<Rightarrow> bool" where
  "non_negative c = f64_le (Finite 0) c"

text \<open>
  The invariant of a scan result: three predictions, every label in the catalog, the
  confidences strictly descending, each in \<open>[0, 1]\<close>, and summing to 1.
\<close>

definition scan_result_invariant :: "prediction list \<Rightarrow> bool" where
  "scan_result_invariant rs =
     (length rs = 3 \<and>
      list_all (\<lambda>p. disease p \<in> set CLASS_NAMES) rs \<and>
      strictly_descending rs \<and>
      list_all (\<lambda>p. in_unit_interval (confidence p)) rs \<and>
      sums_to_one (map confidence rs))"

subsection \<open>Three states of the random source\<close>

text \<open>
  \<open>tie_source\<close>: the samples are 0.5, 0.5, 0.25 and seven times 0.
  \<open>tied_runner_up_source\<close>: the samples are 0.75, 0.5, 0.25, 0.5 and six times 0.
  All are doubles, their sum 2 and the quotients 0.375, 0.25, 0.125, 0.25 are exact,
  and the entries at the indices 1 and 3 have the same confidence.
  \<open>zero_source\<close>: every sample is 0.0, the least value of \<open>[0, 1)\<close>.
\<close>

definition tie_source :: random_source where
  "tie_source =
     \<lparr>shuffled = rev,
      uniform = (\<lambda>i. if i < 2 then 1 / 2 else if i = 2 then 1 / 4 else 0)\<rparr>"

definition tied_runner_up_source :: random_source where
  "tied_runner_up_source =
     \<lparr>shuffled = rev,
      uniform = (\<lambda>i. if i = 0 then 3 / 4 else if i = 1 then 1 / 2
                     else if i = 2 then 1 / 4 else if i = 3 then 1 / 2 else 0)\<rparr>"

definition zero_source :: random_source where
  "zero_source = \<lparr>shuffled = rev, uniform = (\<lambda>i. 0)\<rparr>"

text \<open>What the detector returns in the last two of these states.\<close>

definition tied_runner_up_top3 :: "prediction list" where
  "tied_runner_up_top3 =
    [\<lparr>disease = ''Tomato Bacterial Spot'', confidence = Finite (3 / 8)\<rparr>,
     \<lparr>disease = ''Tomato Leaf Mold'', confidence = Finite (1 / 4)\<rparr>,
     \<lparr>disease = ''Tomato Early Blight'', confidence = Finite (1 / 4)\<rparr>]"

definition nan_top3 :: "prediction list" where
  "nan_top3 =
    [\<lparr>disease = ''Healthy Tomato'', confidence = NaN\<rparr>,
     \<lparr>disease = ''Tomato Mosaic Virus'', confidence = NaN\<rparr>,
     \<lparr>disease = ''Tomato Yellow Leaf Curl Virus'', confidence = NaN\<rparr>]"

section \<open>Properties\<close>

subsection \<open>Indexing and the result loop\<close>

lemma length_CLASS_NAMES: "length CLASS_NAMES = 10"
  by (simp add: CLASS_NAMES_def)

lemma py_index_nth: "i < length xs \<Longrightarrow> py_index xs i = Inr (xs ! i)"
proof (induction xs arbitrary: i)
  case Nil
  then show ?case by simp
next
  case (Cons x xs)
  then show ?case by (cases i) simp_all
qed

lemma py_index_out_of_range: "length xs \<le> i \<Longrightarrow> py_index xs i = Inl IndexError"
proof (induction xs arbitrary: i)
  case Nil
  then show ?case by simp
next
  case (Cons x xs)
  then show ?case by (cases i) simp_all
qed

lemma append_results_in_range:
  assumes "\<forall>i\<in>set idxs. i < length names \<and> i < length confs"
  shows "append_results names confs idxs acc =
           Inr (acc @ map (\<lambda>i. \<lparr>disease = names ! i, confidence = confs ! i\<rparr>) idxs)"
  using assms
proof (induction idxs arbitrary: acc)
  case Nil
  then show ?case by simp
next
  case (Cons i idxs)
  then show ?case by (simp add: py_index_nth)
qed

subsection \<open>argsort and the top indices\<close>

lemma length_normalized_confidences [simp]: "length (normalized_confidences g n) = n"
  by (simp add: normalized_confidences_def np_random_rand_def)

lemma set_np_argsort [simp]: "set (np_argsort xs) = {0..<length xs}"
  by (simp add: np_argsort_def)

lemma length_np_argsort [simp]: "length (np_argsort xs) = length xs"
  by (simp add: np_argsort_def)

lemma distinct_np_argsort [simp]: "distinct (np_argsort xs)"
  by (simp add: np_argsort_def)

lemma sorted_np_argsort: "sorted (map (\<lambda>i. sort_rank (xs ! i)) (np_argsort xs))"
  by (simp add: np_argsort_def)

lemma top_indices_in_range: "i \<in> set (take 3 (rev (np_argsort cs))) \<Longrightarrow> i < length cs"
  using set_take_subset [of 3 "rev (np_argsort cs)"] by auto

lemma top_indices_descending:
  "sorted_wrt (\<lambda>i j. sort_rank (cs ! j) \<le> sort_rank (cs ! i)) (take 3 (rev (np_argsort cs)))"
proof -
  have "sorted_wrt (\<lambda>i j. sort_rank (cs ! i) \<le> sort_rank (cs ! j)) (np_argsort cs)"
    using sorted_np_argsort [of cs] by (simp add: sorted_wrt_map)
  then have "sorted_wrt (\<lambda>i j. sort_rank (cs ! j) \<le> sort_rank (cs ! i)) (rev (np_argsort cs))"
    by (simp add: sorted_wrt_rev)
  then show ?thesis by (rule sorted_wrt_take)
qed

text \<open>
  The detector never raises: every index it subscripts with comes from argsort, so the
  result is the list of the (at most three) entries at the top indices.
\<close>

lemma detect_disease_on_eq:
  "detect_disease_on names img g =
     Inr (map (\<lambda>i. \<lparr>disease = names ! i,
                    confidence = normalized_confidences g (length names) ! i\<rparr>)
          (take 3 (rev (np_argsort (normalized_confidences g (length names))))))"
proof -
  let ?cs = "normalized_confidences g (length names)"
  have "\<forall>i\<in>set (take 3 (rev (np_argsort ?cs))). i < length names \<and> i < length ?cs"
    using top_indices_in_range [of _ ?cs] by simp
  from append_results_in_range [OF this, of "[]"]
  show ?thesis by (simp add: detect_disease_on_def Let_def)
qed

subsection \<open>Normalisation\<close>

lemma sum_list_samples_pos:
  assumes "unit_samples g n" and "i < n" and "0 < uniform g i"
  shows "0 < sum_list (np_random_rand g n)"
proof -
  have nonneg: "\<And>x. x \<in> set (np_random_rand g n) \<Longrightarrow> 0 \<le> x"
    using assms(1) by (auto simp: np_random_rand_def unit_samples_def)
  have "uniform g i \<in> set (np_random_rand g n)"
    using assms(2) by (simp add: np_random_rand_def)
  then have "uniform g i \<le> sum_list (np_random_rand g n)"
    using nonneg by (simp add: member_le_sum_list)
  with assms(3) show ?thesis by linarith
qed

lemma normalized_nth:
  assumes "i < n" and "sum_list (np_random_rand g n) \<noteq> 0"
  shows "normalized_confidences g n ! i = Finite (uniform g i / sum_list (np_random_rand g n))"
  using assms by (simp add: normalized_confidences_def np_random_rand_def np_divide_def Let_def)

lemma normalized_in_unit:
  assumes "unit_samples g n" and "0 < sum_list (np_random_rand g n)" and "i < n"
  shows "in_unit_interval (normalized_confidences g n ! i)"
proof -
  let ?s = "sum_list (np_random_rand g n)"
  have nonneg: "\<And>x. x \<in> set (np_random_rand g n) \<Longrightarrow> 0 \<le> x"
    using assms(1) by (auto simp: np_random_rand_def unit_samples_def)
  have "uniform g i \<in> set (np_random_rand g n)"
    using assms(3) by (simp add: np_random_rand_def)
  then have le: "uniform g i \<le> ?s"
    using nonneg by (simp add: member_le_sum_list)
  have ge: "0 \<le> uniform g i"
    using assms(1,3) by (simp add: unit_samples_def)
  have "0 \<le> uniform g i / ?s \<and> uniform g i / ?s \<le> 1"
    using le ge assms(2) by simp
  moreover have "normalized_confidences g n ! i = Finite (uniform g i / ?s)"
    using assms(2,3) by (simp add: normalized_nth)
  ultimately show ?thesis by (simp add: in_unit_interval_def)
qed

lemma finite_values_map_Finite:
  "finite_values (map (\<lambda>x. Finite (f x)) xs) = Some (map f xs)"
  by (induction xs) simp_all

text \<open>
  With exact division, and as soon as one sample is positive, lines 149-150 produce a
  distribution: no value is negative and the values sum to 1. The sum is that of the
  exact quotients; ten rounded float64 quotients need not sum to exactly 1, and the
  lemma does not say they do.
\<close>

lemma normalized_confidences_distribution:
  assumes "unit_samples g n" and "k < n" and "0 < uniform g k"
  shows "list_all non_negative (normalized_confidences g n) \<and>
         sums_to_one (normalized_confidences g n)"
proof -
  let ?xs = "np_random_rand g n"
  let ?s = "sum_list ?xs"
  have pos: "0 < ?s" using assms by (rule sum_list_samples_pos)
  have eq: "normalized_confidences g n = map (\<lambda>x. Finite (x / ?s)) ?xs"
    using pos by (simp add: normalized_confidences_def np_divide_def Let_def)
  have "\<And>x. x \<in> set ?xs \<Longrightarrow> 0 \<le> x"
    using assms(1) by (auto simp: np_random_rand_def unit_samples_def)
  then have nonneg: "list_all non_negative (normalized_confidences g n)"
    using pos by (simp add: eq list_all_iff non_negative_def f64_le_def)
  have "sum_list (map (\<lambda>x. x / ?s) ?xs) = sum_list (map (\<lambda>x. x * (1 / ?s)) ?xs)"
    by simp
  also have "\<dots> = ?s * (1 / ?s)"
    by (simp only: sum_list_mult_const) simp
  also have "\<dots> = 1" using pos by simp
  finally have "sums_to_one (normalized_confidences g n)"
    by (simp add: eq sums_to_one_def finite_values_map_Finite)
  with nonneg show ?thesis by simp
qed

subsection \<open>The detector on a source with a positive sample\<close>

lemma detect_disease_on_sound:
  assumes "unit_samples g (length names)" and "k < length names" and "0 < uniform g k"
  shows "\<exists>rs. detect_disease_on names img g = Inr rs \<and>
           length rs = min 3 (length names) \<and>
           list_all (\<lambda>p. disease p \<in> set names \<and> in_unit_interval (confidence p)) rs \<and>
           descending rs"
proof -
  let ?n = "length names"
  let ?cs = "normalized_confidences g ?n"
  let ?top = "take 3 (rev (np_argsort ?cs))"
  let ?mk = "\<lambda>i. \<lparr>disease = names ! i, confidence = ?cs ! i\<rparr>"
  have pos: "0 < sum_list (np_random_rand g ?n)"
    using assms by (rule sum_list_samples_pos)
  have range: "\<And>i. i \<in> set ?top \<Longrightarrow> i < ?n"
    using top_indices_in_range [of _ ?cs] by simp
  have eq: "detect_disease_on names img g = Inr (map ?mk ?top)"
    by (rule detect_disease_on_eq)
  have len: "length (map ?mk ?top) = min 3 ?n"
    by simp
  have members:
    "list_all (\<lambda>p. disease p \<in> set names \<and> in_unit_interval (confidence p)) (map ?mk ?top)"
    using range normalized_in_unit [OF assms(1) pos]
    by (simp add: list_all_iff)
  have "sorted_wrt (\<lambda>i j. f64_le (?cs ! j) (?cs ! i)) ?top"
  proof (rule sorted_wrt_mono_rel [OF _ top_indices_descending])
    fix i j
    assume "i \<in> set ?top" and "j \<in> set ?top"
      and le: "sort_rank (?cs ! j) \<le> sort_rank (?cs ! i)"
    then have "i < ?n" and "j < ?n" using range by auto
    then have "?cs ! i \<noteq> NaN" and "?cs ! j \<noteq> NaN"
      using pos by (simp_all add: normalized_nth)
    with le show "f64_le (?cs ! j) (?cs ! i)"
      by (simp add: f64_le_def)
  qed
  then have desc: "descending (map ?mk ?top)"
    by (simp add: descending_def sorted_wrt_map)
  from eq len members desc show ?thesis by blast
qed

lemma unit_samples_tied_runner_up_source: "unit_samples tied_runner_up_source n"
  by (simp add: unit_samples_def tied_runner_up_source_def)

text \<open>
  The ascending argsort of the ten quotients of \<open>tied_runner_up_source\<close> ends with the
  indices 2, 1, 3, 0, so the three top indices are 0, 3, 1.
\<close>

lemma top_indices_tied_runner_up_source:
  "take 3 (rev (np_argsort (normalized_confidences tied_runner_up_source 10))) = [0, 3, 1]"
  by (simp add: normalized_confidences_def np_random_rand_def tied_runner_up_source_def
      np_divide_def np_argsort_def upt_rec numeral_eq_Suc Let_def)

lemma detect_disease_tied_runner_up_source:
  "detect_disease img tied_runner_up_source = Inr tied_runner_up_top3"
  by (simp add: detect_disease_def detect_disease_on_def CLASS_NAMES_def
      normalized_confidences_def np_random_rand_def tied_runner_up_source_def np_divide_def
      np_argsort_def upt_rec numeral_eq_Suc Let_def tied_runner_up_top3_def)

lemma detect_disease_zero_source: "detect_disease img zero_source = Inr nan_top3"
  by (simp add: detect_disease_def detect_disease_on_def CLASS_NAMES_def
      normalized_confidences_def np_random_rand_def zero_source_def np_divide_def
      np_argsort_def upt_rec numeral_eq_Suc Let_def nan_top3_def)

section \<open>The claims\<close>

subsection \<open>C1: three predictions in descending order\<close>

text \<open>
  Claim C1, as amended. For every image handle (or none) and every state of the random
  source in which at least one of the ten samples is positive, \<open>detect_disease\<close>
  returns without an error exactly three predictions; every label is a catalog entry,
  every confidence lies in \<open>[0, 1]\<close>, and the confidences are in descending order,
  where equal confidences may stand side by side. Nothing is said about the order of
  two labels with the same confidence, nor about the state in which all samples are 0.
\<close>

theorem detect_disease_top3_descending:
  assumes "unit_samples g 10" and "k < 10" and "0 < uniform g k"
  shows "\<exists>rs. detect_disease img g = Inr rs \<and> length rs = 3 \<and>
           list_all (\<lambda>p. disease p \<in> set CLASS_NAMES \<and> in_unit_interval (confidence p)) rs \<and>
           descending rs"
  using detect_disease_on_sound [of g CLASS_NAMES k img] assms
  by (simp add: detect_disease_def length_CLASS_NAMES)

theorem detect_disease_top3_descending_witness:
  "unit_samples tied_runner_up_source 10 \<and> (0::nat) < 10 \<and>
   0 < uniform tied_runner_up_source 0 \<and>
   (\<exists>rs. detect_disease None tied_runner_up_source = Inr rs \<and> length rs = 3 \<and>
      list_all (\<lambda>p. disease p \<in> set CLASS_NAMES \<and> in_unit_interval (confidence p)) rs \<and>
      descending rs)"
proof -
  have a: "unit_samples tied_runner_up_source 10"
    by (rule unit_samples_tied_runner_up_source)
  have b: "(0::nat) < 10" by simp
  have c: "0 < uniform tied_runner_up_source 0"
    by (simp add: tied_runner_up_source_def)
  from detect_disease_top3_descending [OF a b c, of None] a b c show ?thesis by blast
qed

text \<open>
  The claim as stated fails on \<open>tied_runner_up_source\<close>. The second and the third
  prediction both have confidence 1/4, so the result is not strictly descending; and
  of these two the later catalog entry (index 3, Leaf Mold) stands before the earlier
  one (index 1, Early Blight), so the tie is not broken by catalog order either: the
  ascending argsort leaves the index 1 before the index 3, and line 153 reverses it.
\<close>

theorem detect_disease_ties_counterexample:
  "detect_disease None tied_runner_up_source = Inr tied_runner_up_top3 \<and>
   \<not> strictly_descending tied_runner_up_top3 \<and>
   \<not> ties_in_catalog_order CLASS_NAMES tied_runner_up_top3"
  by (simp add: detect_disease_tied_runner_up_source tied_runner_up_top3_def
      strictly_descending_def ties_in_catalog_order_def f64_less_def catalog_position_def
      CLASS_NAMES_def)

subsection \<open>C2: the size of the result, and the empty catalog\<close>

text \<open>
  Claim C2, as amended. For every catalog of size \<open>n\<close>, the empty one included, the
  detector returns without an error exactly \<open>min 3 n\<close> predictions. On the empty
  catalog that is the empty list: the source has no check of the catalog and raises
  nothing.
\<close>

theorem detect_disease_on_returns_min3:
  "\<exists>rs. detect_disease_on names img g = Inr rs \<and> length rs = min 3 (length names)"
  by (simp add: detect_disease_on_eq)

theorem detect_disease_on_returns_min3_witness:
  "\<exists>rs. detect_disease_on [''Tomato Early Blight'', ''Healthy Tomato''] None tie_source = Inr rs
     \<and> length rs = 2"
proof -
  from detect_disease_on_returns_min3
    [of "[''Tomato Early Blight'', ''Healthy Tomato'']" None tie_source]
  obtain rs
    where r: "detect_disease_on [''Tomato Early Blight'', ''Healthy Tomato''] None tie_source
                = Inr rs"
      and l: "length rs = min 3 (length [''Tomato Early Blight'', ''Healthy Tomato''])"
    by blast
  from l have "length rs = 2" by simp
  with r show ?thesis by blast
qed

text \<open>On the empty catalog the detector returns the empty list and no error.\<close>

theorem detect_disease_on_empty_catalog_counterexample:
  "detect_disease_on [] None tie_source = Inr [] \<and>
   \<not> isl (detect_disease_on [] None tie_source)"
  by (simp add: detect_disease_on_def normalized_confidences_def np_random_rand_def
      np_argsort_def)

subsection \<open>C3: the treatment lookup\<close>

text \<open>
  Claim C3. For every disease name, \<open>get_treatments\<close> is the first-match lookup over
  the rules for "Healthy", "Early Blight", "Late Blight" and "Septoria", in this
  order, with the default advice when no pattern occurs in the name; the advice list
  it returns is never empty.
\<close>

theorem get_treatments_first_match:
  "get_treatments name = spec_first_match spec_treatment_rules default_treatments name \<and>
   map fst spec_treatment_rules = [''Healthy'', ''Early Blight'', ''Late Blight'', ''Septoria''] \<and>
   get_treatments name \<noteq> []"
  by (simp add: get_treatments_def spec_treatment_rules_def healthy_treatments_def
      early_blight_treatments_def late_blight_treatments_def septoria_treatments_def
      default_treatments_def)

theorem get_treatments_first_match_witness:
  "get_treatments ''Healthy Early Blight'' = healthy_treatments \<and>
   get_treatments ''Tomato Spider Mites'' = default_treatments \<and>
   get_treatments ''Tomato Spider Mites'' \<noteq> []"
  using get_treatments_first_match [of "''Healthy Early Blight''"]
    get_treatments_first_match [of "''Tomato Spider Mites''"]
  by (simp add: spec_treatment_rules_def sublist_Cons_right default_treatments_def)

subsection \<open>C4: the shortened chart label\<close>

text \<open>
  Claim C4 at the catalog label "Tomato Septoria Leaf Spot". The stripped name has 18
  characters, so nothing is cut, and still the ellipsis is appended: line 405 tests the
  length of the name before stripping (25 here).
\<close>

theorem short_name_ellipsis_without_truncation:
  "py_replace ''Tomato '' '''' ''Tomato Septoria Leaf Spot'' = ''Septoria Leaf Spot'' \<and>
   \<not> 20 < length ''Septoria Leaf Spot'' \<and>
   short_name ''Tomato Septoria Leaf Spot'' = ''Septoria Leaf Spot...''"
  by (simp add: short_name_def)

text \<open>The bound of the claim holds for every name: 20 characters and the ellipsis.\<close>

lemma short_name_length: "length (short_name name) \<le> 23"
  by (auto simp: short_name_def)

text \<open>The labels of the whole catalog as the chart shows them.\<close>

lemma short_name_CLASS_NAMES:
  "map short_name CLASS_NAMES =
    [''Bacterial Spot...'', ''Early Blight'', ''Late Blight'', ''Leaf Mold'',
     ''Septoria Leaf Spot...'', ''Spider Mites'', ''Target Spot'',
     ''Yellow Leaf Curl Vir...'', ''Mosaic Virus'', ''Healthy Tomato'']"
  by (simp add: CLASS_NAMES_def short_name_def)

subsection \<open>C5: the distribution before truncation\<close>

text \<open>
  Claim C5 at the state in which all ten samples are 0: the sum is 0, every quotient
  is NaN, so the values are neither non-negative nor do they sum to 1, and the detector
  returns three predictions with confidence NaN.
\<close>

theorem normalized_confidences_zero_samples:
  "normalized_confidences zero_source (length CLASS_NAMES) = replicate 10 NaN \<and>
   \<not> list_all non_negative (normalized_confidences zero_source (length CLASS_NAMES)) \<and>
   \<not> sums_to_one (normalized_confidences zero_source (length CLASS_NAMES)) \<and>
   detect_disease None zero_source = Inr nan_top3"
  by (simp add: detect_disease_zero_source)
     (simp add: normalized_confidences_def np_random_rand_def zero_source_def np_divide_def
      upt_rec numeral_eq_Suc CLASS_NAMES_def non_negative_def f64_le_def sums_to_one_def)

subsection \<open>C6 and C7: the sample scenarios\<close>

text \<open>
  Claim C6. The "Test Early Blight" button stores the three predictions Early Blight
  0.92, Septoria Leaf Spot 0.06 and Late Blight 0.02, and the advice for
  "Tomato Early Blight" has four items, the first "Remove infected leaves immediately".
\<close>

theorem early_blight_sample_scenario:
  "sample_results Test_Early_Blight =
    [\<lparr>disease = ''Tomato Early Blight'', confidence = Finite 0.92\<rparr>,
     \<lparr>disease = ''Tomato Septoria Leaf Spot'', confidence = Finite 0.06\<rparr>,
     \<lparr>disease = ''Tomato Late Blight'', confidence = Finite 0.02\<rparr>] \<and>
   length (get_treatments ''Tomato Early Blight'') = 4 \<and>
   hd (get_treatments ''Tomato Early Blight'') = ''Remove infected leaves immediately''"
  by (simp add: get_treatments_def sublist_Cons_right early_blight_treatments_def)

text \<open>
  Claim C7. The first prediction of the "Test Healthy Leaf" button is "Healthy Tomato"
  with confidence 0.95, and the advice for that label is the healthy list, whose first
  item is "Continue regular monitoring".
\<close>

theorem healthy_sample_scenario:
  "hd (sample_results Test_Healthy_Leaf) =
     \<lparr>disease = ''Healthy Tomato'', confidence = Finite 0.95\<rparr> \<and>
   get_treatments (disease (hd (sample_results Test_Healthy_Leaf))) = healthy_treatments \<and>
   hd healthy_treatments = ''Continue regular monitoring''"
  by (simp add: get_treatments_def sublist_Cons_right healthy_treatments_def)

subsection \<open>C8: the chart keeps the order of the predictions\<close>

text \<open>
  Claim C8. For every list of predictions the chart has one bar per prediction, with
  the shortened label and the confidence of that prediction, in the order of the list;
  the x axis is fixed to \<open>[0, 1]\<close>; and the bars read from the top are in the order of
  the list, so that a list in descending order is drawn with its highest confidence
  first.
\<close>

theorem top_predictions_chart_keeps_order:
  "bar_labels (top_predictions_chart results) = map (\<lambda>p. short_name (disease p)) results \<and>
   bar_widths (top_predictions_chart results) = map confidence results \<and>
   xlim (top_predictions_chart results) = (0, 1) \<and>
   bars_top_to_bottom (top_predictions_chart results) =
     map (\<lambda>p. (short_name (disease p), confidence p)) results \<and>
   (descending results \<longrightarrow>
      sorted_wrt (\<lambda>a b. f64_le (snd b) (snd a))
        (bars_top_to_bottom (top_predictions_chart results)))"
  by (simp add: top_predictions_chart_def bars_top_to_bottom_def zip_map_map
      zip_same_conv_map descending_def sorted_wrt_map comp_def)

theorem top_predictions_chart_keeps_order_witness:
  "descending (sample_results Test_Early_Blight) \<and>
   bars_top_to_bottom (top_predictions_chart (sample_results Test_Early_Blight)) =
     [(''Early Blight'', Finite 0.92), (''Septoria Leaf Spot...'', Finite 0.06),
      (''Late Blight'', Finite 0.02)] \<and>
   xlim (top_predictions_chart (sample_results Test_Early_Blight)) = (0, 1) \<and>
   sorted_wrt (\<lambda>a b. f64_le (snd b) (snd a))
     (bars_top_to_bottom (top_predictions_chart (sample_results Test_Early_Blight)))"
proof -
  let ?r = "sample_results Test_Early_Blight"
  have d: "descending ?r"
    by (simp add: descending_def f64_le_def)
  have s: "map (\<lambda>p. (short_name (disease p), confidence p)) ?r =
     [(''Early Blight'', Finite 0.92), (''Septoria Leaf Spot...'', Finite 0.06),
      (''Late Blight'', Finite 0.02)]"
    by (simp add: short_name_def)
  note t = top_predictions_chart_keeps_order [of ?r]
  from t have "bars_top_to_bottom (top_predictions_chart ?r) =
      map (\<lambda>p. (short_name (disease p), confidence p)) ?r"
    by blast
  from this s have b: "bars_top_to_bottom (top_predictions_chart ?r) =
     [(''Early Blight'', Finite 0.92), (''Septoria Leaf Spot...'', Finite 0.06),
      (''Late Blight'', Finite 0.02)]"
    by (rule trans)
  from t have x: "xlim (top_predictions_chart ?r) = (0, 1)"
    by blast
  from t d have o: "sorted_wrt (\<lambda>a b. f64_le (snd b) (snd a))
      (bars_top_to_bottom (top_predictions_chart ?r))"
    by blast
  from d b x o show ?thesis by blast
qed

subsection \<open>C9: the image is not read\<close>

text \<open>
  Claim C9. For any two image handles, absent or not, and the same state of the random
  source, \<open>detect_disease\<close> returns the same result.
\<close>

theorem detect_disease_ignores_image:
  "detect_disease image1 g = detect_disease image2 g"
  by (simp add: detect_disease_def detect_disease_on_def)

subsection \<open>C10: the sample results satisfy the invariant\<close>

text \<open>
  Claim C10. Each of the three hard-coded sample results has exactly three
  predictions, every label in \<open>CLASS_NAMES\<close>, confidences strictly descending and in
  \<open>[0, 1]\<close>, and the three confidences, read as the decimal numbers written in the
  source, sum to 1.
\<close>

theorem sample_results_invariant: "scan_result_invariant (sample_results b)"
  by (cases b)
     (simp_all add: scan_result_invariant_def CLASS_NAMES_def strictly_descending_def
        f64_less_def in_unit_interval_def sums_to_one_def)

theorem sample_results_invariant_witness:
  "scan_result_invariant (sample_results Test_Late_Blight)"
  by (rule sample_results_invariant)

end
